theory Spec2Isabelle
  imports Complex_Main "HOL-Library.Word" "HOL-Library.Log_Nat"
begin

section \<open>Navigation arbiter (modes/autonomous\_mode.cpp)\<close>

text \<open>
  The arbiter is the class \<open>AutonomousMode\<close>. Its fields become a record, each member
  function a state transformer. Conventions of the embedding:
  \<^item> \<open>unsigned long\<close> is 32 bits wide on the target: clock values are \<open>32 word\<close> and
    their differences wrap around; the \<open>int\<close> intervals they are compared with are
    converted to \<open>unsigned long\<close> by the usual arithmetic conversions, which keep
    the 32-bit pattern, so these fields are \<open>32 word\<close> too;
  \<^item> \<open>millis()\<close> is the argument \<open>now\<close>; one call of \<open>update\<close> reads the same value
    at each of its calls of \<open>millis()\<close>;
  \<^item> the four collaborators read by the arbiter (three IR units, one ultrasonic ranger)
    are attached (the pointers set by \<open>begin\<close> are not null) and their current readings
    are the argument \<open>env\<close>; the ranger distance is a \<open>float\<close> that is only compared
    with constants, modelled as a real number;
  \<^item> the calls made on the motor controller and the audio manager, and the lines
    written by \<open>logNavigationEvent\<close>, are appended to three traces kept in the state;
    \<open>motors\<close> and \<open>audio\<close> say whether those pointers are non-null.
\<close>

datatype NavigationState =
  NAV_FORWARD | NAV_TURN_LEFT | NAV_TURN_RIGHT | NAV_BACKWARD | NAV_STOP
  | NAV_AVOID_LEFT | NAV_AVOID_RIGHT

datatype MotorCall =
  MoveForward int | MoveBackward int | TurnLeft int | TurnRight int | MotorStop

datatype SystemSound = SOUND_ALERT | SOUND_POWER_OFF | SOUND_SIREN

record Readings =
  irLeft :: bool
  irCenter :: bool
  irRight :: bool
  distance :: real

record AutonomousMode =
  motors :: bool
  audio :: bool
  isActive :: bool
  isPaused :: bool
  lastUpdate :: "32 word"
  updateInterval :: "32 word"
  obstacleDetected :: bool
  obstacleDistance :: real
  obstacleStartTime :: "32 word"
  lineFollowingEnabled :: bool
  linePosition :: int
  lastLinePosition :: int
  currentState :: NavigationState
  lastState :: NavigationState
  stateStartTime :: "32 word"
  stateTimeout :: "32 word"
  baseSpeed :: int
  turnSpeed :: int
  avoidSpeed :: int
  reverseSpeed :: int
  safetyEnabled :: bool
  lastSafetyCheck :: "32 word"
  safetyCheckInterval :: "32 word"
  maxObstacleTime :: "32 word"
  motorCalls :: "MotorCall list"
  sounds :: "SystemSound list"
  navLog :: "string list"

definition constructed :: AutonomousMode where
  "constructed =
     \<lparr> motors = False, audio = False, isActive = False, isPaused = False,
       lastUpdate = 0, updateInterval = 100,
       obstacleDetected = False, obstacleDistance = 0, obstacleStartTime = 0,
       lineFollowingEnabled = True, linePosition = 0, lastLinePosition = 0,
       currentState = NAV_FORWARD, lastState = NAV_FORWARD,
       stateStartTime = 0, stateTimeout = 3000,
       baseSpeed = 150, turnSpeed = 120, avoidSpeed = 100, reverseSpeed = 100,
       safetyEnabled = True, lastSafetyCheck = 0, safetyCheckInterval = 500,
       maxObstacleTime = 10000,
       motorCalls = [], sounds = [], navLog = [] \<rparr>"

definition logNavigationEvent :: "string \<Rightarrow> AutonomousMode \<Rightarrow> AutonomousMode" where
  "logNavigationEvent event s = s\<lparr>navLog := navLog s @ [event]\<rparr>"

fun stateNames :: "NavigationState \<Rightarrow> string" where
  "stateNames NAV_FORWARD = ''FORWARD''"
| "stateNames NAV_TURN_LEFT = ''TURN_LEFT''"
| "stateNames NAV_TURN_RIGHT = ''TURN_RIGHT''"
| "stateNames NAV_BACKWARD = ''BACKWARD''"
| "stateNames NAV_STOP = ''STOP''"
| "stateNames NAV_AVOID_LEFT = ''AVOID_LEFT''"
| "stateNames NAV_AVOID_RIGHT = ''AVOID_RIGHT''"

definition setState :: "32 word \<Rightarrow> NavigationState \<Rightarrow> AutonomousMode \<Rightarrow> AutonomousMode" where
  "setState now state s =
     (if state = currentState s then s
      else logNavigationEvent (''State: '' @ stateNames state)
             (s\<lparr>lastState := currentState s, currentState := state,
                stateStartTime := now\<rparr>))"

definition updateSensors :: "32 word \<Rightarrow> Readings \<Rightarrow> AutonomousMode \<Rightarrow> AutonomousMode" where
  "updateSensors now env s =
     (let detected = (irLeft env \<or> irCenter env \<or> irRight env \<or> distance env < 20);
          s1 = s\<lparr>obstacleDetected := detected, obstacleDistance := distance env\<rparr>
      in if detected
         then (if obstacleStartTime s1 = 0 then s1\<lparr>obstacleStartTime := now\<rparr> else s1)
         else s1\<lparr>obstacleStartTime := 0\<rparr>)"

definition checkSafety :: "32 word \<Rightarrow> AutonomousMode \<Rightarrow> AutonomousMode" where
  "checkSafety now s =
     (if now - lastSafetyCheck s < safetyCheckInterval s then s
      else
        (let s1 =
           (if obstacleDetected s \<and> obstacleStartTime s > 0
               \<and> now - obstacleStartTime s > maxObstacleTime s
            then
              (let a = setState now NAV_STOP s;
                   b = (if audio a then a\<lparr>sounds := sounds a @ [SOUND_SIREN]\<rparr> else a)
               in logNavigationEvent ''Safety stop - prolonged obstacle'' b)
            else s)
         in s1\<lparr>lastSafetyCheck := now\<rparr>))"

definition avoidObstacles :: "32 word \<Rightarrow> Readings \<Rightarrow> AutonomousMode \<Rightarrow> AutonomousMode" where
  "avoidObstacles now env s =
     (if \<not> obstacleDetected s then s
      else
        (let leftObstacle = irLeft env; centerObstacle = irCenter env;
             rightObstacle = irRight env
         in if centerObstacle then
              (if obstacleDistance s < 15 then setState now NAV_BACKWARD s
               else if \<not> leftObstacle \<and> rightObstacle then setState now NAV_AVOID_LEFT s
               else if leftObstacle \<and> \<not> rightObstacle then setState now NAV_AVOID_RIGHT s
               else setState now NAV_BACKWARD s)
            else if leftObstacle then setState now NAV_AVOID_RIGHT s
            else if rightObstacle then setState now NAV_AVOID_LEFT s
            else s))"

definition followLine :: "32 word \<Rightarrow> Readings \<Rightarrow> AutonomousMode \<Rightarrow> AutonomousMode" where
  "followLine now env s =
     (if \<not> lineFollowingEnabled s then s
      else
        (let leftLine = irLeft env; centerLine = irCenter env; rightLine = irRight env;
             pos = (if leftLine \<and> centerLine \<and> rightLine then 0
                    else if leftLine \<and> centerLine then - 1
                    else if centerLine \<and> rightLine then 1
                    else if leftLine then - 2
                    else if rightLine then 2
                    else if lastLinePosition s < 0 then - 2
                    else 2);
             s1 = s\<lparr>linePosition := pos, lastLinePosition := pos\<rparr>
         in if pos = 0 then setState now NAV_FORWARD s1
            else if pos < 0 then setState now NAV_TURN_LEFT s1
            else setState now NAV_TURN_RIGHT s1))"

definition processObstacles :: "32 word \<Rightarrow> Readings \<Rightarrow> AutonomousMode \<Rightarrow> AutonomousMode" where
  "processObstacles now env s = (if obstacleDetected s then avoidObstacles now env s else s)"

definition processLineFollowing :: "32 word \<Rightarrow> Readings \<Rightarrow> AutonomousMode \<Rightarrow> AutonomousMode" where
  "processLineFollowing now env s = (if \<not> obstacleDetected s then followLine now env s else s)"

fun directive :: "AutonomousMode \<Rightarrow> NavigationState \<Rightarrow> MotorCall" where
  "directive s NAV_FORWARD = MoveForward (baseSpeed s)"
| "directive s NAV_TURN_LEFT = TurnLeft (turnSpeed s)"
| "directive s NAV_TURN_RIGHT = TurnRight (turnSpeed s)"
| "directive s NAV_BACKWARD = MoveBackward (reverseSpeed s)"
| "directive s NAV_STOP = MotorStop"
| "directive s NAV_AVOID_LEFT = TurnLeft (avoidSpeed s)"
| "directive s NAV_AVOID_RIGHT = TurnRight (avoidSpeed s)"

definition executeState :: "AutonomousMode \<Rightarrow> AutonomousMode" where
  "executeState s =
     (if \<not> motors s then s
      else s\<lparr>motorCalls := motorCalls s @ [directive s (currentState s)]\<rparr>)"

definition navigate :: "32 word \<Rightarrow> Readings \<Rightarrow> AutonomousMode \<Rightarrow> AutonomousMode" where
  "navigate now env s =
     (let s1 = processObstacles now env s;
          s2 = (if lineFollowingEnabled s1 then processLineFollowing now env s1 else s1)
      in executeState s2)"

definition isStateTimeout :: "32 word \<Rightarrow> AutonomousMode \<Rightarrow> bool" where
  "isStateTimeout now s \<longleftrightarrow> now - stateStartTime s > stateTimeout s"

definition updateState :: "32 word \<Rightarrow> AutonomousMode \<Rightarrow> AutonomousMode" where
  "updateState now s =
     (if isStateTimeout now s then
        (if currentState s = NAV_BACKWARD then setState now NAV_FORWARD s
         else if currentState s = NAV_AVOID_LEFT \<or> currentState s = NAV_AVOID_RIGHT
           then setState now NAV_FORWARD s
         else s)
      else s)"

text \<open>
  \<open>update\<close> is one pass of the driver loop. \<open>tickDue\<close> says that the pass gets beyond its
  two early returns, that is, that it is a tick of the arbiter; \<open>sensed\<close>, \<open>checked\<close> and
  \<open>navigated\<close> name the state after each of its first three steps.
\<close>

definition tickDue :: "32 word \<Rightarrow> AutonomousMode \<Rightarrow> bool" where
  "tickDue now s \<longleftrightarrow>
     isActive s \<and> \<not> isPaused s \<and> \<not> now - lastUpdate s < updateInterval s"

definition sensed :: "32 word \<Rightarrow> Readings \<Rightarrow> AutonomousMode \<Rightarrow> AutonomousMode" where
  "sensed now env s = updateSensors now env s"

definition checked :: "32 word \<Rightarrow> Readings \<Rightarrow> AutonomousMode \<Rightarrow> AutonomousMode" where
  "checked now env s =
     (let s1 = sensed now env s in if safetyEnabled s1 then checkSafety now s1 else s1)"

definition navigated :: "32 word \<Rightarrow> Readings \<Rightarrow> AutonomousMode \<Rightarrow> AutonomousMode" where
  "navigated now env s = navigate now env (checked now env s)"

definition update :: "32 word \<Rightarrow> Readings \<Rightarrow> AutonomousMode \<Rightarrow> AutonomousMode" where
  "update now env s =
     (if \<not> isActive s \<or> isPaused s then s
      else if now - lastUpdate s < updateInterval s then s
      else (updateState now (navigated now env s))\<lparr>lastUpdate := now\<rparr>)"


section \<open>Occupancy grid (mapping/slam\_mapper.cpp)\<close>

text \<open>
  The grid is the class \<open>SLAMMapper\<close>. Conventions of the embedding:
  \<^item> the heap array \<open>map[y][x]\<close> is a store from row and column to cells, \<open>mapCells s y x\<close>;
    every access of the source is guarded by the bounds of \<open>config\<close>, and so is every
    access of the model;
  \<^item> \<open>float\<close> values are real numbers and the arithmetic of the update rule and of the
    ray projection is exact; the rounding of binary32 is made explicit only for the two
    coordinate transforms, which take the rounding function as their first argument
    (\<open>exact\<close> for none, \<open>f32\<close> for binary32);
  \<^item> \<open>(int)\<close> applied to a \<open>float\<close> is \<open>toInt\<close>, truncation toward zero; a \<open>Point\<close>
    returned by \<open>worldToMap\<close> holds two such integers and is a pair of integers here;
  \<^item> \<open>millis()\<close> is the argument \<open>now\<close>.
\<close>

datatype MapCellType = UNKNOWN | FREE | OBSTACLE | WAYPOINT | CAR_POSITION

record MapCell =
  type :: MapCellType
  confidence :: real
  timestamp :: "32 word"
  visited :: bool

record Waypoint =
  wp_id :: "32 word"
  wp_x :: real
  wp_y :: real
  wp_name :: string
  wp_timestamp :: "32 word"
  wp_visited :: bool

record MapConfig =
  cellSize :: real
  mapWidth :: int
  mapHeight :: int
  originX :: real
  originY :: real
  maxRange :: real
  minRange :: real

record SLAMMapper =
  config :: MapConfig
  mapCells :: "int \<Rightarrow> int \<Rightarrow> MapCell"
  carPosition :: "real \<times> real"
  carAngle :: real
  waypoints :: "Waypoint list"
  mapInitialized :: bool
  occupancyThreshold :: real
  freeThreshold :: real
  lastUltrasonicDistance :: real
  lastIRLeft :: real
  lastIRCenter :: real
  lastIRRight :: real

definition toInt :: "real \<Rightarrow> int" where
  "toInt r = (if 0 \<le> r then \<lfloor>r\<rfloor> else \<lceil>r\<rceil>)"

definition exact :: "real \<Rightarrow> real" where
  "exact r = r"

text \<open>
  Binary32, round to nearest, ties to even: a value is rounded to a multiple of
  \<open>2 ^ e\<close>, where \<open>e\<close> is 23 below the binary exponent of the value and at least
  \<open>-149\<close> (subnormal range). Overflow to infinity is not modelled.
\<close>

definition roundEven :: "real \<Rightarrow> int" where
  "roundEven q =
     (let f = \<lfloor>q\<rfloor>; d = q - of_int f
      in if d < 1 / 2 then f else if 1 / 2 < d then f + 1
         else if even f then f else f + 1)"

definition binExponent :: "real \<Rightarrow> int" where
  "binExponent r =
     (if 1 \<le> \<bar>r\<bar> then int (floorlog 2 (nat \<lfloor>\<bar>r\<bar>\<rfloor>)) - 1
      else - int (floorlog 2 (nat (\<lceil>1 / \<bar>r\<bar>\<rceil> - 1))))"

definition f32 :: "real \<Rightarrow> real" where
  "f32 r =
     (if r = 0 then 0
      else (let e = max (binExponent r - 23) (- 149)
            in of_int (roundEven (r / 2 powi e)) * 2 powi e))"

definition worldToMap :: "(real \<Rightarrow> real) \<Rightarrow> MapConfig \<Rightarrow> real \<Rightarrow> real \<Rightarrow> int \<times> int" where
  "worldToMap rnd cfg worldX worldY =
     (toInt (rnd (rnd (worldX + originX cfg) / cellSize cfg)),
      toInt (rnd (rnd (worldY + originY cfg) / cellSize cfg)))"

definition mapToWorld :: "(real \<Rightarrow> real) \<Rightarrow> MapConfig \<Rightarrow> int \<Rightarrow> int \<Rightarrow> real \<times> real" where
  "mapToWorld rnd cfg mapX mapY =
     (rnd (rnd (rnd (of_int mapX) * cellSize cfg) - originX cfg),
      rnd (rnd (rnd (of_int mapY) * cellSize cfg) - originY cfg))"

definition inGrid :: "MapConfig \<Rightarrow> int \<times> int \<Rightarrow> bool" where
  "inGrid cfg p \<longleftrightarrow>
     fst p \<ge> 0 \<and> fst p < mapWidth cfg \<and> snd p \<ge> 0 \<and> snd p < mapHeight cfg"

text \<open>
  The body of \<open>updateMapCell\<close> after its bounds check, as a function of the cell:
  \<open>blend\<close> is called with the two thresholds of the mapper.
\<close>

definition blend :: "real \<Rightarrow> real \<Rightarrow> 32 word \<Rightarrow> MapCellType \<Rightarrow> real \<Rightarrow> MapCell \<Rightarrow> MapCell" where
  "blend occ free now ty conf cell =
     (let cell1 =
        (if ty = OBSTACLE then
           (let c = (if type cell = FREE then (confidence cell + conf) / 2
                     else max (confidence cell) conf);
                cell2 = cell\<lparr>confidence := c\<rparr>
            in if c > occ then cell2\<lparr>type := OBSTACLE\<rparr> else cell2)
         else if ty = FREE then
           (let c = (if type cell = OBSTACLE then min (confidence cell) (1 - conf)
                     else max (confidence cell) conf);
                cell2 = cell\<lparr>confidence := c\<rparr>
            in if c > free then cell2\<lparr>type := FREE\<rparr> else cell2)
         else cell\<lparr>type := ty, confidence := conf\<rparr>)
      in cell1\<lparr>timestamp := now\<rparr>)"

definition updateMapCell ::
  "32 word \<Rightarrow> int \<Rightarrow> int \<Rightarrow> MapCellType \<Rightarrow> real \<Rightarrow> SLAMMapper \<Rightarrow> SLAMMapper" where
  "updateMapCell now x y ty conf s =
     (if x < 0 \<or> x \<ge> mapWidth (config s) \<or> y < 0 \<or> y \<ge> mapHeight (config s) then s
      else s\<lparr>mapCells := (mapCells s)
             (y := (mapCells s y)
                (x := blend (occupancyThreshold s) (freeThreshold s) now ty conf
                        (mapCells s y x)))\<rparr>)"

definition rayPoint :: "SLAMMapper \<Rightarrow> real \<Rightarrow> real \<Rightarrow> real \<times> real" where
  "rayPoint s dst ang =
     (fst (carPosition s) + dst * cos (carAngle s + ang),
      snd (carPosition s) + dst * sin (carAngle s + ang))"

definition rayCell :: "SLAMMapper \<Rightarrow> real \<Rightarrow> real \<Rightarrow> int \<times> int" where
  "rayCell s dst ang =
     worldToMap exact (config s) (fst (rayPoint s dst ang)) (snd (rayPoint s dst ang))"

definition updateObstacle :: "32 word \<Rightarrow> real \<Rightarrow> real \<Rightarrow> SLAMMapper \<Rightarrow> SLAMMapper" where
  "updateObstacle now dst ang s =
     (let mapPos = rayCell s dst ang
      in if inGrid (config s) mapPos
         then updateMapCell now (fst mapPos) (snd mapPos) OBSTACLE (8 / 10) s
         else s)"

definition raySteps :: "SLAMMapper \<Rightarrow> real \<Rightarrow> int" where
  "raySteps s dst = toInt (dst / (cellSize (config s) / 2))"

text \<open>
  The cell of the \<open>i\<close>-th sample of the ray walk, at \<open>i * stepSize\<close> from the car, and
  the body of the loop of \<open>updateFreeSpace\<close> for that \<open>i\<close>.
\<close>

definition sampleCell :: "SLAMMapper \<Rightarrow> real \<Rightarrow> int \<Rightarrow> int \<times> int" where
  "sampleCell s ang i = rayCell s (of_int i * (cellSize (config s) / 2)) ang"

definition freeStep :: "32 word \<Rightarrow> real \<Rightarrow> SLAMMapper \<Rightarrow> int \<Rightarrow> SLAMMapper" where
  "freeStep now ang s i =
     (let mapPos = sampleCell s ang i
      in if inGrid (config s) mapPos
         then updateMapCell now (fst mapPos) (snd mapPos) FREE (6 / 10) s
         else s)"

definition updateFreeSpace :: "32 word \<Rightarrow> real \<Rightarrow> real \<Rightarrow> SLAMMapper \<Rightarrow> SLAMMapper" where
  "updateFreeSpace now dst ang s = foldl (freeStep now ang) s [1 .. raySteps s dst - 1]"

definition updateOccupancyGrid :: "32 word \<Rightarrow> real \<Rightarrow> real \<Rightarrow> SLAMMapper \<Rightarrow> SLAMMapper" where
  "updateOccupancyGrid now dst ang s =
     (if inGrid (config s) (rayCell s dst ang)
      then updateFreeSpace now dst ang (updateObstacle now dst ang s)
      else s)"

text \<open>
  \<open>processSensorData\<close> handles four beams, one after the other, and then marks the cell
  of the car. Each guarded call of the source is a function of its own here.
\<close>

definition ultrasonicBeam :: "32 word \<Rightarrow> SLAMMapper \<Rightarrow> SLAMMapper" where
  "ultrasonicBeam now s =
     (if lastUltrasonicDistance s > minRange (config s)
         \<and> lastUltrasonicDistance s < maxRange (config s)
      then updateOccupancyGrid now (lastUltrasonicDistance s) (carAngle s) s
      else s)"

definition irBeam :: "32 word \<Rightarrow> real \<Rightarrow> real \<Rightarrow> SLAMMapper \<Rightarrow> SLAMMapper" where
  "irBeam now reading ang s =
     (if reading > 0 \<and> reading < maxRange (config s)
      then updateOccupancyGrid now reading ang s
      else s)"

definition markCarCell :: "32 word \<Rightarrow> SLAMMapper \<Rightarrow> SLAMMapper" where
  "markCarCell now s =
     (let mapPos = worldToMap exact (config s) (fst (carPosition s)) (snd (carPosition s))
      in if inGrid (config s) mapPos
         then s\<lparr>mapCells := (mapCells s)
                (snd mapPos := (mapCells s (snd mapPos))
                   (fst mapPos := (mapCells s (snd mapPos) (fst mapPos))
                      \<lparr>timestamp := now, visited := True\<rparr>))\<rparr>
         else s)"

definition processSensorData :: "32 word \<Rightarrow> SLAMMapper \<Rightarrow> SLAMMapper" where
  "processSensorData now s =
     (if \<not> mapInitialized s then s
      else
        (let s1 = ultrasonicBeam now s;
             s2 = irBeam now (lastIRLeft s1) (carAngle s1 - 30 * pi / 180) s1;
             s3 = irBeam now (lastIRCenter s2) (carAngle s2) s2;
             s4 = irBeam now (lastIRRight s3) (carAngle s3 + 30 * pi / 180) s3
         in markCarCell now s4))"


text \<open>
  The constructor, \<open>initialize\<close> (which returns \<open>true\<close>), and the two setters of the pose
  and of the readings. The constructor leaves the four readings indeterminate; they are
  0 here and are written by \<open>updateSensors\<close> before \<open>processSensorData\<close> reads them. The
  arbiter has a member of the same name, so the mapper's is \<open>updateSensors_map\<close>.
\<close>

definition blank :: MapCell where
  "blank = \<lparr>type = UNKNOWN, confidence = 0, timestamp = 0, visited = False\<rparr>"

definition constructedMapper :: SLAMMapper where
  "constructedMapper =
     \<lparr> config = \<lparr>cellSize = 1 / 10, mapWidth = 200, mapHeight = 200, originX = 10,
                  originY = 10, maxRange = 4, minRange = 5 / 100\<rparr>,
       mapCells = (\<lambda>y x. blank), carPosition = (0, 0), carAngle = 0, waypoints = [],
       mapInitialized = False, occupancyThreshold = 7 / 10, freeThreshold = 3 / 10,
       lastUltrasonicDistance = 0, lastIRLeft = 0, lastIRCenter = 0, lastIRRight = 0 \<rparr>"

definition initialize :: "MapConfig \<Rightarrow> SLAMMapper \<Rightarrow> SLAMMapper" where
  "initialize cfg s = s\<lparr>config := cfg, mapCells := (\<lambda>y x. blank), mapInitialized := True\<rparr>"

definition updatePosition :: "32 word \<Rightarrow> real \<Rightarrow> real \<Rightarrow> real \<Rightarrow> SLAMMapper \<Rightarrow> SLAMMapper" where
  "updatePosition now wx wy ang s =
     (let s1 = s\<lparr>carPosition := (wx, wy), carAngle := ang\<rparr>;
          mapPos = worldToMap exact (config s1) wx wy
      in if inGrid (config s1) mapPos
         then updateMapCell now (fst mapPos) (snd mapPos) CAR_POSITION 1 s1
         else s1)"

definition updateSensors_map :: "real \<Rightarrow> real \<Rightarrow> real \<Rightarrow> real \<Rightarrow> SLAMMapper \<Rightarrow> SLAMMapper" where
  "updateSensors_map ultrasonic irL irC irR s =
     s\<lparr>lastUltrasonicDistance := ultrasonic, lastIRLeft := irL, lastIRCenter := irC,
       lastIRRight := irR\<rparr>"

subsection \<open>Serialization\<close>

text \<open>
  \<open>generateMapXML\<close> writes one element per listed cell and per waypoint, each attribute
  through the \<open>String\<close> class. The document is kept as the tree of its elements, each
  attribute as the value its text denotes: \<open>String\<close> of an integer, of a 32-bit
  unsigned and of a truth value denote the value itself; \<open>String\<close> of a \<open>float\<close> prints
  two decimal places (the default of that class), which is \<open>decimals2\<close>; \<open>String\<close> of
  the enumeration prints its number, \<open>typeCode\<close>. Names are copied as they are.
\<close>

definition decimals2 :: "real \<Rightarrow> real" where
  "decimals2 r = sgn r * of_int \<lfloor>\<bar>r\<bar> * 100 + 1 / 2\<rfloor> / 100"

fun typeCode :: "MapCellType \<Rightarrow> int" where
  "typeCode UNKNOWN = 0"
| "typeCode FREE = 1"
| "typeCode OBSTACLE = 2"
| "typeCode WAYPOINT = 3"
| "typeCode CAR_POSITION = 4"

record CellElement =
  el_x :: int
  el_y :: int
  el_type :: int
  el_confidence :: real
  el_visited :: bool
  el_timestamp :: "32 word"

record WaypointElement =
  we_id :: "32 word"
  we_x :: real
  we_y :: real
  we_name :: string
  we_visited :: bool
  we_timestamp :: "32 word"

record MapDocument =
  doc_cellSize :: real
  doc_width :: int
  doc_height :: int
  doc_originX :: real
  doc_originY :: real
  doc_maxRange :: real
  doc_minRange :: real
  doc_carX :: real
  doc_carY :: real
  doc_angle :: real
  doc_cells :: "CellElement list"
  doc_waypoints :: "WaypointElement list"

definition cellElement :: "SLAMMapper \<Rightarrow> int \<Rightarrow> int \<Rightarrow> CellElement" where
  "cellElement s x y =
     \<lparr> el_x = x, el_y = y, el_type = typeCode (type (mapCells s y x)),
       el_confidence = decimals2 (confidence (mapCells s y x)),
       el_visited = visited (mapCells s y x),
       el_timestamp = timestamp (mapCells s y x) \<rparr>"

definition listed :: "MapCell \<Rightarrow> bool" where
  "listed cell \<longleftrightarrow> type cell \<noteq> UNKNOWN \<or> visited cell"

definition generateCells :: "SLAMMapper \<Rightarrow> CellElement list" where
  "generateCells s =
     concat (map (\<lambda>y.
       concat (map (\<lambda>x. if listed (mapCells s y x) then [cellElement s x y] else [])
         [0 .. mapWidth (config s) - 1]))
       [0 .. mapHeight (config s) - 1])"

definition waypointElement :: "Waypoint \<Rightarrow> WaypointElement" where
  "waypointElement w =
     \<lparr> we_id = wp_id w, we_x = decimals2 (wp_x w), we_y = decimals2 (wp_y w),
       we_name = wp_name w, we_visited = wp_visited w, we_timestamp = wp_timestamp w \<rparr>"

definition generateWaypointXML :: "SLAMMapper \<Rightarrow> WaypointElement list" where
  "generateWaypointXML s = map waypointElement (waypoints s)"

definition generateMapXML :: "SLAMMapper \<Rightarrow> MapDocument" where
  "generateMapXML s =
     \<lparr> doc_cellSize = decimals2 (cellSize (config s)),
       doc_width = mapWidth (config s), doc_height = mapHeight (config s),
       doc_originX = decimals2 (originX (config s)),
       doc_originY = decimals2 (originY (config s)),
       doc_maxRange = decimals2 (maxRange (config s)),
       doc_minRange = decimals2 (minRange (config s)),
       doc_carX = decimals2 (fst (carPosition s)),
       doc_carY = decimals2 (snd (carPosition s)),
       doc_angle = decimals2 (carAngle s),
       doc_cells = generateCells s,
       doc_waypoints = generateWaypointXML s \<rparr>"

text \<open>
  Modelled from the spec: the reading of one attribute of a cell element, the inverse
  of \<open>typeCode\<close>; it is part of \<open>parseMapXML\<close>, which the sources call and do not
  define.
\<close>

definition typeOfCode :: "int \<Rightarrow> MapCellType" where
  "typeOfCode n =
     (if n = 1 then FREE else if n = 2 then OBSTACLE else if n = 3 then WAYPOINT
      else if n = 4 then CAR_POSITION else UNKNOWN)"

text \<open>
  Modelled from the spec: the cell that a cell element of the document stands for
  (part of the missing \<open>parseMapXML\<close>).
\<close>

definition cellOfElement :: "CellElement \<Rightarrow> MapCell" where
  "cellOfElement e =
     \<lparr> type = typeOfCode (el_type e), confidence = el_confidence e,
       timestamp = el_timestamp e, visited = el_visited e \<rparr>"

text \<open>
  Modelled from the spec: the waypoint that a waypoint element of the document stands
  for (part of the missing \<open>parseMapXML\<close>).
\<close>

definition waypointOfElement :: "WaypointElement \<Rightarrow> Waypoint" where
  "waypointOfElement e =
     \<lparr> wp_id = we_id e, wp_x = we_x e, wp_y = we_y e, wp_name = we_name e,
       wp_timestamp = we_timestamp e, wp_visited = we_visited e \<rparr>"

text \<open>
  Modelled from the spec: \<open>parseMapXML\<close>, which \<open>loadMap\<close> calls and the sources do not
  define. The spec asks for a loader that reconstructs the state from a previously
  produced document and defaults any unlisted cell to Unknown, confidence 0, not
  visited. The loader reads each cell from its element, if the document has one, and
  is blank otherwise; it reads the pose and the waypoints, in order, from theirs; it
  keeps the configuration of the mapper and reports success.
\<close>

definition parseMapXML :: "MapDocument \<Rightarrow> SLAMMapper \<Rightarrow> bool \<times> SLAMMapper" where
  "parseMapXML doc s =
     (True,
      s\<lparr>mapCells := (\<lambda>y x.
           case find (\<lambda>e. el_x e = x \<and> el_y e = y) (doc_cells doc) of
             None \<Rightarrow> blank
           | Some e \<Rightarrow> cellOfElement e),
        carPosition := (doc_carX doc, doc_carY doc), carAngle := doc_angle doc,
        waypoints := map waypointOfElement (doc_waypoints doc)\<rparr>)"

text \<open>
  \<open>loadMap\<close>: the file of the given name holds a document or is absent (\<open>None\<close>).
\<close>

definition loadMap :: "MapDocument option \<Rightarrow> SLAMMapper \<Rightarrow> bool \<times> SLAMMapper" where
  "loadMap file s =
     (if \<not> mapInitialized s then (False, s)
      else (case file of Some doc \<Rightarrow> parseMapXML doc s | None \<Rightarrow> (True, s)))"

section \<open>Auxiliary notions and scenarios\<close>

text \<open>What a trace has gained between two states.\<close>

definition emitted :: "'a list \<Rightarrow> 'a list \<Rightarrow> 'a list" where
  "emitted before after = drop (length before) after"

text \<open>The fields of the mapper that the ray projection and the update rule read.\<close>

definition geometry :: "SLAMMapper \<Rightarrow> MapConfig \<times> (real \<times> real) \<times> real \<times> real \<times> real" where
  "geometry s = (config s, carPosition s, carAngle s, occupancyThreshold s, freeThreshold s)"

text \<open>Arbiter scenarios: a started arbiter with motors and audio attached.\<close>

definition running :: AutonomousMode where
  "running = constructed\<lparr>motors := True, audio := True, isActive := True\<rparr>"

definition quiet :: Readings where
  "quiet = \<lparr>irLeft = False, irCenter = False, irRight = False, distance = 50\<rparr>"

definition centerNear :: Readings where
  "centerNear = \<lparr>irLeft = False, irCenter = True, irRight = False, distance = 10\<rparr>"

definition rightFar :: Readings where
  "rightFar = \<lparr>irLeft = False, irCenter = True, irRight = True, distance = 30\<rparr>"

definition rangerOnly :: Readings where
  "rangerOnly = \<lparr>irLeft = False, irCenter = False, irRight = False, distance = 10\<rparr>"

text \<open>In \<open>AvoidLeft\<close> since 1000 ms, last tick at 4000 ms.\<close>

definition avoiding :: AutonomousMode where
  "avoiding = running\<lparr>currentState := NAV_AVOID_LEFT, stateStartTime := 1000,
     lastUpdate := 4000, lastSafetyCheck := 4000\<rparr>"

text \<open>
  An obstacle asserted since 1000 ms, in \<open>AvoidLeft\<close> since 10000 ms, last tick at
  10900 ms, last safety check at 10500 ms.
\<close>

definition blocked :: AutonomousMode where
  "blocked = running\<lparr>obstacleDetected := True, obstacleDistance := 10,
     obstacleStartTime := 1000, currentState := NAV_AVOID_LEFT, stateStartTime := 10000,
     lastUpdate := 10900, lastSafetyCheck := 10500\<rparr>"

text \<open>Every obstacle cell of the grid has a confidence above the free threshold.\<close>

definition firmObstacles :: "SLAMMapper \<Rightarrow> bool" where
  "firmObstacles s \<longleftrightarrow>
     (\<forall>y \<in> {0 ..< mapHeight (config s)}. \<forall>x \<in> {0 ..< mapWidth (config s)}.
        type (mapCells s y x) = OBSTACLE \<longrightarrow> confidence (mapCells s y x) > freeThreshold s)"

text \<open>
  The confidence of cell \<open>(x, y)\<close> after \<open>n\<close> calls of \<open>updateMapCell\<close> on it with
  classification Obstacle and confidence 0.9.
\<close>

definition confidenceAfter :: "32 word \<Rightarrow> int \<Rightarrow> int \<Rightarrow> nat \<Rightarrow> SLAMMapper \<Rightarrow> real" where
  "confidenceAfter now x y n s =
     confidence (mapCells ((updateMapCell now x y OBSTACLE (9 / 10) ^^ n) s) y x)"

text \<open>
  Mapper scenarios: a grid of 10 by 10 cells of 1 m with origin (5, 5), the car at
  (0, 0) heading 0; \<open>withCell\<close> puts a cell into a grid.
\<close>

definition room :: MapConfig where
  "room = \<lparr>cellSize = 1, mapWidth = 10, mapHeight = 10, originX = 5, originY = 5,
     maxRange = 4, minRange = 5 / 100\<rparr>"

definition scene :: SLAMMapper where
  "scene = initialize room constructedMapper"

definition withCell :: "int \<Rightarrow> int \<Rightarrow> MapCell \<Rightarrow> SLAMMapper \<Rightarrow> SLAMMapper" where
  "withCell x y cell s = s\<lparr>mapCells := (mapCells s)(y := (mapCells s y)(x := cell))\<rparr>"

definition defaults32 :: MapConfig where
  "defaults32 = \<lparr>cellSize = f32 (1 / 10), mapWidth = 200, mapHeight = 200,
     originX = f32 10, originY = f32 10, maxRange = f32 4, minRange = f32 (5 / 100)\<rparr>"

definition obstacleAt :: "real \<Rightarrow> MapCell" where
  "obstacleAt c = \<lparr>type = OBSTACLE, confidence = c, timestamp = 0, visited = False\<rparr>"

text \<open>
  The room with an obstacle in cell (6, 5), firm (0.8) or weak (0.2); the car moved to
  (3, 0), without and with an obstacle in cell (9, 5).
\<close>

definition roomFirm :: SLAMMapper where
  "roomFirm = withCell 6 5 (obstacleAt (8 / 10)) scene"

definition roomWeak :: SLAMMapper where
  "roomWeak = withCell 6 5 (obstacleAt (2 / 10)) scene"

definition sceneEdge :: SLAMMapper where
  "sceneEdge = scene\<lparr>carPosition := (3, 0)\<rparr>"

definition roomEdge :: SLAMMapper where
  "roomEdge = withCell 9 5 (obstacleAt (8 / 10)) sceneEdge"

text \<open>
  The car placed at (0, 0) by \<open>updatePosition\<close>, its cell then crossed by a ray.
\<close>

definition crossed :: SLAMMapper where
  "crossed = updateMapCell 2 5 5 FREE (6 / 10) (updatePosition 1 0 0 0 scene)"

text \<open>
  The mapper \<open>s0\<close> after loading the document generated from \<open>s\<close>; a waypoint; and a
  room with an obstacle, an unlisted cell of confidence 0.5 and that waypoint.
\<close>

definition reloaded :: "SLAMMapper \<Rightarrow> SLAMMapper \<Rightarrow> SLAMMapper" where
  "reloaded s0 s = snd (loadMap (Some (generateMapXML s)) s0)"

definition dock :: Waypoint where
  "dock = \<lparr>wp_id = 1000, wp_x = 1234 / 1000, wp_y = 2, wp_name = ''Dock'',
     wp_timestamp = 1000, wp_visited = False\<rparr>"

definition surveyed :: SLAMMapper where
  "surveyed =
     (withCell 2 2 \<lparr>type = UNKNOWN, confidence = 1 / 2, timestamp = 0, visited = False\<rparr>
       (withCell 8 5 \<lparr>type = OBSTACLE, confidence = 8 / 10, timestamp = 7, visited = False\<rparr>
         scene))
     \<lparr>waypoints := [dock]\<rparr>"

text \<open>
  The room after \<open>updateSensors\<close>: an ultrasonic reading beyond \<open>maxRange\<close>, and a
  center IR reading of 0.03 m, below \<open>minRange\<close>; the other readings are 0.
\<close>

definition sensedFar :: SLAMMapper where
  "sensedFar = updateSensors_map 5 0 0 0 scene"

definition sensedNear :: SLAMMapper where
  "sensedNear = updateSensors_map 0 0 (3 / 100) 0 scene"

section \<open>Properties of the arbiter\<close>

subsection \<open>Frame lemmas\<close>

lemma currentState_setState [simp]: "currentState (setState now st s) = st"
  by (simp add: setState_def logNavigationEvent_def)

lemma obstacleDetected_setState [simp]:
  "obstacleDetected (setState now st s) = obstacleDetected s"
  by (simp add: setState_def logNavigationEvent_def)

lemma lineFollowingEnabled_setState [simp]:
  "lineFollowingEnabled (setState now st s) = lineFollowingEnabled s"
  by (simp add: setState_def logNavigationEvent_def)

lemma obstacleDistance_setState [simp]:
  "obstacleDistance (setState now st s) = obstacleDistance s"
  by (simp add: setState_def logNavigationEvent_def)

lemma stateTimeout_setState [simp]: "stateTimeout (setState now st s) = stateTimeout s"
  by (simp add: setState_def logNavigationEvent_def)

lemma sounds_setState [simp]: "sounds (setState now st s) = sounds s"
  by (simp add: setState_def logNavigationEvent_def)

lemma navLog_setState: "\<exists>l. navLog (setState now st s) = navLog s @ l"
  by (simp add: setState_def logNavigationEvent_def)

lemma currentState_executeState [simp]: "currentState (executeState s) = currentState s"
  by (simp add: executeState_def)

lemma obstacleDetected_avoidObstacles [simp]:
  "obstacleDetected (avoidObstacles now env s) = obstacleDetected s"
  by (simp add: avoidObstacles_def Let_def)

lemma stateTimeout_avoidObstacles [simp]:
  "stateTimeout (avoidObstacles now env s) = stateTimeout s"
  by (simp add: avoidObstacles_def Let_def)

lemma sounds_avoidObstacles [simp]: "sounds (avoidObstacles now env s) = sounds s"
  by (simp add: avoidObstacles_def Let_def)

lemma navLog_avoidObstacles: "\<exists>l. navLog (avoidObstacles now env s) = navLog s @ l"
  by (simp add: avoidObstacles_def Let_def navLog_setState)

lemma stateTimeout_followLine [simp]: "stateTimeout (followLine now env s) = stateTimeout s"
  by (simp add: followLine_def Let_def)

lemma stateTimeout_navigate [simp]: "stateTimeout (navigate now env s) = stateTimeout s"
  by (simp add: navigate_def processObstacles_def processLineFollowing_def executeState_def
      Let_def)

lemma stateTimeout_checkSafety [simp]: "stateTimeout (checkSafety now s) = stateTimeout s"
  by (simp add: checkSafety_def logNavigationEvent_def Let_def)

lemma stateTimeout_updateSensors [simp]:
  "stateTimeout (updateSensors now env s) = stateTimeout s"
  by (simp add: updateSensors_def Let_def)

lemma stateTimeout_navigated: "stateTimeout (navigated now env s) = stateTimeout s"
  by (simp add: navigated_def checked_def sensed_def Let_def)

lemma sounds_updateState [simp]: "sounds (updateState now s) = sounds s"
  by (simp add: updateState_def)

lemma navLog_updateState: "\<exists>l. navLog (updateState now s) = navLog s @ l"
  by (simp add: updateState_def navLog_setState)

lemma emitted_append [simp]: "emitted xs (xs @ ys) = ys"
  by (simp add: emitted_def)

subsection \<open>The steps of a tick\<close>

lemma update_tick:
  "tickDue now s \<Longrightarrow>
     update now env s = (updateState now (navigated now env s))\<lparr>lastUpdate := now\<rparr>"
  by (simp add: update_def tickDue_def)

lemma navigate_obstacle:
  "obstacleDetected s \<Longrightarrow> navigate now env s = executeState (avoidObstacles now env s)"
  by (simp add: navigate_def processObstacles_def processLineFollowing_def Let_def)

lemma navigate_ranger_only:
  assumes "obstacleDetected s" and "\<not> irLeft env" and "\<not> irCenter env" and "\<not> irRight env"
  shows "navigate now env s = executeState s"
  using assms by (simp add: navigate_obstacle avoidObstacles_def)

lemma obstacleDetected_checked:
  "obstacleDetected (checked now env s) \<longleftrightarrow>
     (irLeft env \<or> irCenter env \<or> irRight env \<or> distance env < 20)"
  by (auto simp add: checked_def sensed_def updateSensors_def checkSafety_def Let_def
      logNavigationEvent_def)

lemma obstacleDistance_checked: "obstacleDistance (checked now env s) = distance env"
  by (auto simp add: checked_def sensed_def updateSensors_def checkSafety_def Let_def
      logNavigationEvent_def)

lemma sensed_obstacle:
  assumes "irLeft env \<or> irCenter env \<or> irRight env \<or> distance env < 20"
    and "obstacleStartTime s \<noteq> 0"
  shows "sensed now env s = s\<lparr>obstacleDetected := True, obstacleDistance := distance env\<rparr>"
  using assms by (simp add: sensed_def updateSensors_def Let_def)

lemma checkSafety_fires:
  assumes "\<not> now - lastSafetyCheck s < safetyCheckInterval s"
    and "obstacleDetected s" and "obstacleStartTime s \<noteq> 0"
    and "now - obstacleStartTime s > maxObstacleTime s"
  shows "checkSafety now s =
     (let a = setState now NAV_STOP s;
          b = (if audio a then a\<lparr>sounds := sounds a @ [SOUND_SIREN]\<rparr> else a)
      in (logNavigationEvent ''Safety stop - prolonged obstacle'' b)\<lparr>lastSafetyCheck := now\<rparr>)"
  using assms by (simp add: checkSafety_def Let_def word_neq_0_conv)

lemma checked_fires:
  assumes en: "safetyEnabled s"
    and due: "\<not> now - lastSafetyCheck s < safetyCheckInterval s"
    and obst: "irLeft env \<or> irCenter env \<or> irRight env \<or> distance env < 20"
    and start: "obstacleStartTime s \<noteq> 0"
    and long: "now - obstacleStartTime s > maxObstacleTime s"
  shows "currentState (checked now env s) = NAV_STOP"
    and "obstacleDetected (checked now env s)"
    and "navLog (checked now env s) =
           navLog s @ (if currentState s = NAV_STOP then [] else [''State: STOP''])
             @ [''Safety stop - prolonged obstacle'']"
    and "sounds (checked now env s) = sounds s @ (if audio s then [SOUND_SIREN] else [])"
    and "motorCalls (checked now env s) = motorCalls s"
    and "motors (checked now env s) = motors s"
proof -
  let ?s1 = "s\<lparr>obstacleDetected := True, obstacleDistance := distance env\<rparr>"
  have c: "checked now env s = checkSafety now ?s1"
    using en by (simp add: checked_def sensed_obstacle [OF obst start] Let_def)
  have f: "checkSafety now ?s1 =
     (let a = setState now NAV_STOP ?s1;
          b = (if audio a then a\<lparr>sounds := sounds a @ [SOUND_SIREN]\<rparr> else a)
      in (logNavigationEvent ''Safety stop - prolonged obstacle'' b)\<lparr>lastSafetyCheck := now\<rparr>)"
    using due start long by (intro checkSafety_fires) simp_all
  show "currentState (checked now env s) = NAV_STOP"
    unfolding c f by (simp add: Let_def logNavigationEvent_def)
  show "obstacleDetected (checked now env s)"
    unfolding c f by (simp add: Let_def logNavigationEvent_def)
  show "navLog (checked now env s) =
           navLog s @ (if currentState s = NAV_STOP then [] else [''State: STOP''])
             @ [''Safety stop - prolonged obstacle'']"
    unfolding c f by (simp add: Let_def logNavigationEvent_def setState_def)
  show "sounds (checked now env s) = sounds s @ (if audio s then [SOUND_SIREN] else [])"
    unfolding c f by (simp add: Let_def logNavigationEvent_def setState_def)
  show "motorCalls (checked now env s) = motorCalls s"
    unfolding c f by (simp add: Let_def logNavigationEvent_def setState_def)
  show "motors (checked now env s) = motors s"
    unfolding c f by (simp add: Let_def logNavigationEvent_def setState_def)
qed

lemma updateState_timeout:
  assumes "currentState s \<in> {NAV_BACKWARD, NAV_AVOID_LEFT, NAV_AVOID_RIGHT}"
    and "now - stateStartTime s > stateTimeout s"
  shows "currentState (updateState now s) = NAV_FORWARD"
  using assms by (auto simp add: updateState_def isStateTimeout_def)


subsection \<open>Obstacle priority\<close>

text \<open>
  Claim C6. On a tick on which an obstacle condition holds (an IR unit is triggered or
  the ranger reads less than 20 cm), the state committed by the navigation step is:
  \<open>Backward\<close> when the center unit is triggered and the distance is below 15 cm; with the
  center unit triggered and the distance at least 15 cm, \<open>AvoidLeft\<close> when only the right
  unit is triggered, \<open>AvoidRight\<close> when only the left unit is triggered, \<open>Backward\<close> when
  both or neither are; with the center unit clear, \<open>AvoidRight\<close> on a left-only trigger and
  \<open>AvoidLeft\<close> on a right-only trigger.
\<close>

theorem obstacle_priority_rule:
  assumes "irLeft env \<or> irCenter env \<or> irRight env \<or> distance env < 20"
  shows "(irCenter env \<and> distance env < 15 \<longrightarrow>
            currentState (navigated now env s) = NAV_BACKWARD)
       \<and> (irCenter env \<and> distance env \<ge> 15 \<and> \<not> irLeft env \<and> irRight env \<longrightarrow>
            currentState (navigated now env s) = NAV_AVOID_LEFT)
       \<and> (irCenter env \<and> distance env \<ge> 15 \<and> irLeft env \<and> \<not> irRight env \<longrightarrow>
            currentState (navigated now env s) = NAV_AVOID_RIGHT)
       \<and> (irCenter env \<and> distance env \<ge> 15 \<and> (irLeft env \<longleftrightarrow> irRight env) \<longrightarrow>
            currentState (navigated now env s) = NAV_BACKWARD)
       \<and> (\<not> irCenter env \<and> irLeft env \<and> \<not> irRight env \<longrightarrow>
            currentState (navigated now env s) = NAV_AVOID_RIGHT)
       \<and> (\<not> irCenter env \<and> \<not> irLeft env \<and> irRight env \<longrightarrow>
            currentState (navigated now env s) = NAV_AVOID_LEFT)"
proof -
  have d: "obstacleDetected (checked now env s)"
    using assms by (simp add: obstacleDetected_checked)
  show ?thesis
    unfolding navigated_def navigate_obstacle [OF d]
    using d by (auto simp add: avoidObstacles_def obstacleDistance_checked Let_def)
qed

theorem obstacle_priority_rule_witness:
  "irCenter centerNear \<and> distance centerNear < 15
   \<and> currentState running = NAV_FORWARD
   \<and> currentState (navigated 100 centerNear running) = NAV_BACKWARD
   \<and> irCenter rightFar \<and> distance rightFar \<ge> 15 \<and> \<not> irLeft rightFar \<and> irRight rightFar
   \<and> currentState (navigated 100 rightFar running) = NAV_AVOID_LEFT"
proof -
  have a: "irLeft centerNear \<or> irCenter centerNear \<or> irRight centerNear \<or> distance centerNear < 20"
    by (simp add: centerNear_def)
  have b: "irLeft rightFar \<or> irCenter rightFar \<or> irRight rightFar \<or> distance rightFar < 20"
    by (simp add: rightFar_def)
  have c: "irCenter centerNear \<and> distance centerNear < 15 \<and> currentState running = NAV_FORWARD"
    by (simp add: centerNear_def running_def constructed_def)
  have d: "irCenter rightFar \<and> distance rightFar \<ge> 15 \<and> \<not> irLeft rightFar \<and> irRight rightFar"
    by (simp add: rightFar_def)
  show ?thesis
    using c d obstacle_priority_rule [OF a, of 100 running]
      obstacle_priority_rule [OF b, of 100 running]
    by simp
qed

subsection \<open>Timeout recovery\<close>

text \<open>
  Claim C8, as amended. On a tick, if the state committed by the navigation step is
  \<open>Backward\<close>, \<open>AvoidLeft\<close> or \<open>AvoidRight\<close> and has been held for longer than the state
  timeout, the tick ends in \<open>Forward\<close>.
\<close>

theorem timeout_recovery:
  assumes "tickDue now s"
    and "currentState (navigated now env s) \<in> {NAV_BACKWARD, NAV_AVOID_LEFT, NAV_AVOID_RIGHT}"
    and "now - stateStartTime (navigated now env s) > stateTimeout s"
  shows "currentState (update now env s) = NAV_FORWARD"
proof -
  have "currentState (updateState now (navigated now env s)) = NAV_FORWARD"
    using assms(2,3) by (intro updateState_timeout) (simp_all add: stateTimeout_navigated)
  then show ?thesis
    by (simp add: update_tick [OF assms(1)])
qed

text \<open>
  The scenario of the claim, with line following switched off: in \<open>AvoidLeft\<close> for
  3100 ms, nothing triggered.
\<close>

theorem timeout_recovery_witness:
  "tickDue 4100 (avoiding\<lparr>lineFollowingEnabled := False\<rparr>)
   \<and> currentState (navigated 4100 quiet (avoiding\<lparr>lineFollowingEnabled := False\<rparr>))
        = NAV_AVOID_LEFT
   \<and> 4100 - stateStartTime (navigated 4100 quiet (avoiding\<lparr>lineFollowingEnabled := False\<rparr>))
        = 3100
   \<and> stateTimeout (avoiding\<lparr>lineFollowingEnabled := False\<rparr>) = 3000
   \<and> currentState (update 4100 quiet (avoiding\<lparr>lineFollowingEnabled := False\<rparr>)) = NAV_FORWARD"
proof -
  let ?s = "avoiding\<lparr>lineFollowingEnabled := False\<rparr>"
  have a: "tickDue 4100 ?s"
    by code_simp
  have b: "currentState (navigated 4100 quiet ?s) = NAV_AVOID_LEFT"
    by code_simp
  have c: "4100 - stateStartTime (navigated 4100 quiet ?s) = 3100"
    by code_simp
  have d: "stateTimeout ?s = 3000"
    by code_simp
  have "currentState (update 4100 quiet ?s) = NAV_FORWARD"
    by (rule timeout_recovery [OF a]) (simp_all add: b c d)
  with a b c d show ?thesis by simp
qed

text \<open>
  The claim as stated fails under the constructor's settings: with line following
  enabled and nothing triggered, the tick after 3100 ms in \<open>AvoidLeft\<close> ends in
  \<open>TurnRight\<close>.
\<close>

theorem timeout_recovery_counterexample:
  "tickDue 4100 avoiding \<and> currentState avoiding = NAV_AVOID_LEFT
   \<and> 4100 - stateStartTime avoiding = 3100 \<and> stateTimeout avoiding = 3000
   \<and> \<not> irLeft quiet \<and> \<not> irCenter quiet \<and> \<not> irRight quiet \<and> \<not> distance quiet < 20
   \<and> currentState (update 4100 quiet avoiding) = NAV_TURN_RIGHT
   \<and> currentState (update 4100 quiet avoiding) \<noteq> NAV_FORWARD"
  by code_simp

subsection \<open>Safety watchdog\<close>




section \<open>Properties of the grid\<close>

subsection \<open>Frame lemmas\<close>

lemma geometry_updateMapCell [simp]: "geometry (updateMapCell now x y ty conf s) = geometry s"
  by (simp add: updateMapCell_def geometry_def)

lemma geometry_fields:
  assumes "geometry s' = geometry s"
  shows "config s' = config s" and "carPosition s' = carPosition s"
    and "carAngle s' = carAngle s" and "occupancyThreshold s' = occupancyThreshold s"
    and "freeThreshold s' = freeThreshold s"
  using assms by (simp_all add: geometry_def)

lemma rayCell_geometry: "geometry s' = geometry s \<Longrightarrow> rayCell s' dst ang = rayCell s dst ang"
  by (simp add: rayCell_def rayPoint_def geometry_def)

lemma sampleCell_geometry:
  "geometry s' = geometry s \<Longrightarrow> sampleCell s' ang i = sampleCell s ang i"
  by (simp add: sampleCell_def rayCell_def rayPoint_def geometry_def)

lemma mapCells_updateMapCell:
  "mapCells (updateMapCell now x y ty conf s) y' x' =
     (if inGrid (config s) (x, y) \<and> x' = x \<and> y' = y
      then blend (occupancyThreshold s) (freeThreshold s) now ty conf (mapCells s y x)
      else mapCells s y' x')"
  by (auto simp add: updateMapCell_def inGrid_def)

lemma config_updateMapCell [simp]: "config (updateMapCell now x y ty conf s) = config s"
  by (simp add: updateMapCell_def)

lemma thresholds_updateMapCell [simp]:
  "occupancyThreshold (updateMapCell now x y ty conf s) = occupancyThreshold s"
  "freeThreshold (updateMapCell now x y ty conf s) = freeThreshold s"
  by (simp_all add: updateMapCell_def)

lemma raySteps_geometry: "geometry s' = geometry s \<Longrightarrow> raySteps s' dst = raySteps s dst"
  by (simp add: raySteps_def geometry_def)

lemma geometry_updateObstacle [simp]: "geometry (updateObstacle now dst ang s) = geometry s"
  by (simp add: updateObstacle_def Let_def)

lemma geometry_freeStep [simp]: "geometry (freeStep now ang s i) = geometry s"
  by (simp add: freeStep_def Let_def)

lemma geometry_scene:
  "config scene = room" "carPosition scene = (0, 0)" "carAngle scene = 0"
  "occupancyThreshold scene = 7 / 10" "freeThreshold scene = 3 / 10"
  by (simp_all add: scene_def initialize_def constructedMapper_def)

lemma geometry_withCell [simp]: "geometry (withCell x y cell s) = geometry s"
  by (simp add: withCell_def geometry_def)

lemma mapCells_withCell:
  "mapCells (withCell x y cell s) y' x' = (if x' = x \<and> y' = y then cell else mapCells s y' x')"
  by (simp add: withCell_def)

lemma mapCells_scene [simp]: "mapCells scene y x = blank"
  by (simp add: scene_def initialize_def)


lemma rayCell_ahead:
  assumes "config s = room" and "carPosition s = (px, 0)" and "carAngle s = 0" and "0 \<le> dst + px + 5"
  shows "rayCell s dst 0 = (\<lfloor>dst + px + 5\<rfloor>, 5)"
  using assms by (simp add: rayCell_def rayPoint_def worldToMap_def exact_def toInt_def room_def add.commute)

subsection \<open>The scenarios\<close>

lemma inGrid_room: "inGrid room (x, y) \<longleftrightarrow> 0 \<le> x \<and> x < 10 \<and> 0 \<le> y \<and> y < 10"
  by (auto simp add: inGrid_def room_def)

lemma raySteps_room: "config s = room \<Longrightarrow> 0 \<le> dst \<Longrightarrow> raySteps s dst = \<lfloor>dst * 2\<rfloor>"
  by (simp add: raySteps_def room_def toInt_def)

lemma sampleCell_ahead:
  assumes "config s = room" and "carPosition s = (px, 0)" and "carAngle s = 0"
    and "0 \<le> of_int i / 2 + px + 5"
  shows "sampleCell s 0 i = (\<lfloor>of_int i / 2 + px + 5\<rfloor>, 5)"
  using assms rayCell_ahead [of s px "of_int i / 2"] by (simp add: sampleCell_def room_def)

lemma geometry_rooms:
  "geometry roomFirm = geometry scene" "geometry roomWeak = geometry scene"
  "config roomEdge = room" "carPosition roomEdge = (3, 0)" "carAngle roomEdge = 0"
  "config sceneEdge = room" "carPosition sceneEdge = (3, 0)" "carAngle sceneEdge = 0"
proof -
  show "geometry roomFirm = geometry scene" "geometry roomWeak = geometry scene"
    by (simp_all add: roomFirm_def roomWeak_def)
  show e: "config sceneEdge = room" "carPosition sceneEdge = (3, 0)" "carAngle sceneEdge = 0"
    by (simp_all add: sceneEdge_def geometry_scene)
  have "geometry roomEdge = geometry sceneEdge"
    by (simp add: roomEdge_def)
  from geometry_fields(1-3) [OF this]
  show "config roomEdge = room" "carPosition roomEdge = (3, 0)" "carAngle roomEdge = 0"
    by (simp_all add: e)
qed

subsection \<open>The update rule\<close>



subsection \<open>Free and obstacle updates of one cell\<close>

lemma blend_FREE_type:
  assumes "free < 4 / 10" and "type cell = OBSTACLE \<longrightarrow> confidence cell > free"
  shows "type (blend occ free now FREE (6 / 10) cell) = FREE"
  using assms by (auto simp add: blend_def Let_def)

lemma blend_FREE_weak:
  assumes "type cell = OBSTACLE" and "confidence cell \<le> free"
  shows "type (blend occ free now FREE (6 / 10) cell) = OBSTACLE
    \<and> confidence (blend occ free now FREE (6 / 10) cell) \<le> free"
  using assms by (auto simp add: blend_def Let_def)

lemma blend_OBSTACLE_firm:
  assumes "free \<le> occ" and "type cell = OBSTACLE \<longrightarrow> confidence cell > free"
    and "type (blend occ free now OBSTACLE (8 / 10) cell) = OBSTACLE"
  shows "confidence (blend occ free now OBSTACLE (8 / 10) cell) > free"
  using assms by (auto simp add: blend_def Let_def split: if_splits)

lemma firmObstacles_iff:
  "firmObstacles s \<longleftrightarrow>
     (\<forall>y x. inGrid (config s) (x, y) \<longrightarrow> type (mapCells s y x) = OBSTACLE \<longrightarrow>
        confidence (mapCells s y x) > freeThreshold s)"
  by (auto simp add: firmObstacles_def inGrid_def)

lemma firmObstacles_free:
  assumes "firmObstacles s" and "freeThreshold s < 4 / 10"
  shows "firmObstacles (updateMapCell now x y FREE (6 / 10) s)"
  unfolding firmObstacles_iff
proof (intro allI impI)
  fix y' x'
  assume g: "inGrid (config (updateMapCell now x y FREE (6 / 10) s)) (x', y')"
    and o: "type (mapCells (updateMapCell now x y FREE (6 / 10) s) y' x') = OBSTACLE"
  have old: "type (mapCells s y' x') = OBSTACLE \<longrightarrow> confidence (mapCells s y' x') > freeThreshold s"
    using assms(1) g by (simp add: firmObstacles_iff)
  show "freeThreshold (updateMapCell now x y FREE (6 / 10) s)
      < confidence (mapCells (updateMapCell now x y FREE (6 / 10) s) y' x')"
  proof (cases "inGrid (config s) (x, y) \<and> x' = x \<and> y' = y")
    case True
    with o old blend_FREE_type [OF assms(2), of "mapCells s y x" "occupancyThreshold s" now]
    show ?thesis by (simp add: mapCells_updateMapCell)
  next
    case False
    then have "mapCells (updateMapCell now x y FREE (6 / 10) s) y' x' = mapCells s y' x'"
      by (auto simp add: mapCells_updateMapCell)
    with o old show ?thesis by simp
  qed
qed

lemma firmObstacles_obstacle:
  assumes "firmObstacles s" and "freeThreshold s \<le> occupancyThreshold s"
  shows "firmObstacles (updateMapCell now x y OBSTACLE (8 / 10) s)"
  unfolding firmObstacles_iff
proof (intro allI impI)
  fix y' x'
  assume g: "inGrid (config (updateMapCell now x y OBSTACLE (8 / 10) s)) (x', y')"
    and o: "type (mapCells (updateMapCell now x y OBSTACLE (8 / 10) s) y' x') = OBSTACLE"
  have old: "type (mapCells s y' x') = OBSTACLE \<longrightarrow> confidence (mapCells s y' x') > freeThreshold s"
    using assms(1) g by (simp add: firmObstacles_iff)
  show "freeThreshold (updateMapCell now x y OBSTACLE (8 / 10) s)
      < confidence (mapCells (updateMapCell now x y OBSTACLE (8 / 10) s) y' x')"
  proof (cases "inGrid (config s) (x, y) \<and> x' = x \<and> y' = y")
    case True
    with o old blend_OBSTACLE_firm [OF assms(2), of "mapCells s y x" now]
    show ?thesis by (simp add: mapCells_updateMapCell)
  next
    case False
    then have "mapCells (updateMapCell now x y OBSTACLE (8 / 10) s) y' x' = mapCells s y' x'"
      by (auto simp add: mapCells_updateMapCell)
    with o old show ?thesis by simp
  qed
qed

subsection \<open>The ray walk\<close>

lemma config_freeStep [simp]: "config (freeStep now ang s i) = config s"
  by (simp add: freeStep_def Let_def)

lemma freeThreshold_freeStep [simp]: "freeThreshold (freeStep now ang s i) = freeThreshold s"
  by (simp add: freeStep_def Let_def)

lemma firmObstacles_freeStep:
  assumes "firmObstacles s" and "freeThreshold s < 4 / 10"
  shows "firmObstacles (freeStep now ang s i)"
  using assms(1) firmObstacles_free [OF assms] by (simp add: freeStep_def Let_def)

lemma freeStep_marks:
  assumes "firmObstacles s" and "freeThreshold s < 4 / 10"
    and "inGrid (config s) (sampleCell s ang i)"
  shows "type (mapCells (freeStep now ang s i) (snd (sampleCell s ang i))
           (fst (sampleCell s ang i))) = FREE"
proof -
  have "type (mapCells s (snd (sampleCell s ang i)) (fst (sampleCell s ang i))) = OBSTACLE \<longrightarrow>
      confidence (mapCells s (snd (sampleCell s ang i)) (fst (sampleCell s ang i)))
        > freeThreshold s"
    using assms(1,3) by (simp add: firmObstacles_iff)
  then show ?thesis
    using assms(3) blend_FREE_type [OF assms(2)]
    by (simp add: freeStep_def Let_def mapCells_updateMapCell)
qed

lemma freeStep_keeps_free:
  assumes "type (mapCells s y x) = FREE" and "freeThreshold s < 4 / 10"
  shows "type (mapCells (freeStep now ang s i) y x) = FREE"
  using assms blend_FREE_type [OF assms(2), of "mapCells s y x" "occupancyThreshold s" now]
  by (auto simp add: freeStep_def Let_def mapCells_updateMapCell)

lemma freeStep_keeps_weak:
  assumes "type (mapCells s y x) = OBSTACLE" and "confidence (mapCells s y x) \<le> freeThreshold s"
  shows "type (mapCells (freeStep now ang s i) y x) = OBSTACLE
    \<and> confidence (mapCells (freeStep now ang s i) y x) \<le> freeThreshold (freeStep now ang s i)"
  using assms blend_FREE_weak [OF assms, of "occupancyThreshold s" now]
  by (auto simp add: freeStep_def Let_def mapCells_updateMapCell)

lemma walk_marks:
  assumes "firmObstacles s" and "freeThreshold s < 4 / 10"
  shows "geometry (foldl (freeStep now ang) s js) = geometry s
    \<and> firmObstacles (foldl (freeStep now ang) s js)
    \<and> (\<forall>j \<in> set js. inGrid (config s) (sampleCell s ang j) \<longrightarrow>
          type (mapCells (foldl (freeStep now ang) s js) (snd (sampleCell s ang j))
            (fst (sampleCell s ang j))) = FREE)"
proof (induction js rule: rev_induct)
  case Nil
  show ?case using assms(1) by simp
next
  case (snoc i js)
  let ?t = "foldl (freeStep now ang) s js"
  from snoc have g: "geometry ?t = geometry s" and f: "firmObstacles ?t"
    and m: "\<forall>j \<in> set js. inGrid (config s) (sampleCell s ang j) \<longrightarrow>
          type (mapCells ?t (snd (sampleCell s ang j)) (fst (sampleCell s ang j))) = FREE"
    by blast+
  have c: "config ?t = config s" and th: "freeThreshold ?t < 4 / 10"
    using geometry_fields(1,5) [OF g] assms(2) by simp_all
  have sc: "sampleCell ?t ang i = sampleCell s ang i"
    by (rule sampleCell_geometry [OF g])
  have "type (mapCells (freeStep now ang ?t i) (snd (sampleCell s ang j))
      (fst (sampleCell s ang j))) = FREE"
    if j: "j \<in> set (js @ [i])" and q: "inGrid (config s) (sampleCell s ang j)" for j
  proof (cases "j = i")
    case True
    with q freeStep_marks [OF f th, of ang i now] show ?thesis by (simp add: sc c)
  next
    case False
    with j m q have "type (mapCells ?t (snd (sampleCell s ang j)) (fst (sampleCell s ang j))) = FREE"
      by simp
    then show ?thesis by (rule freeStep_keeps_free [OF _ th])
  qed
  then show ?case
    using g firmObstacles_freeStep [OF f th] by simp
qed

lemma walk_keeps_weak:
  assumes "type (mapCells s y x) = OBSTACLE" and "confidence (mapCells s y x) \<le> freeThreshold s"
  shows "type (mapCells (foldl (freeStep now ang) s js) y x) = OBSTACLE"
  using assms
proof (induction js arbitrary: s)
  case Nil
  then show ?case by simp
next
  case (Cons j js)
  from freeStep_keeps_weak [OF Cons.prems, of now ang j] show ?case
    by (simp add: Cons.IH)
qed

lemma weak_obstacle_persists:
  assumes "type (mapCells s y x) = OBSTACLE" and "confidence (mapCells s y x) \<le> freeThreshold s"
    and "rayCell s dst ang \<noteq> (x, y)"
  shows "type (mapCells (updateOccupancyGrid now dst ang s) y x) = OBSTACLE"
proof (cases "inGrid (config s) (rayCell s dst ang)")
  case False
  with assms(1) show ?thesis by (simp add: updateOccupancyGrid_def)
next
  case True
  let ?s1 = "updateObstacle now dst ang s"
  have same: "mapCells ?s1 y x = mapCells s y x"
    using assms(3) True
    by (cases "rayCell s dst ang") (auto simp add: updateObstacle_def Let_def mapCells_updateMapCell)
  have ft: "freeThreshold ?s1 = freeThreshold s"
    using geometry_fields(5) [OF geometry_updateObstacle] .
  have "type (mapCells (foldl (freeStep now ang) ?s1 js) y x) = OBSTACLE" for js
    using assms(1,2) by (intro walk_keeps_weak) (simp_all add: same ft)
  then show ?thesis
    using True by (simp add: updateOccupancyGrid_def updateFreeSpace_def)
qed

subsection \<open>Readings out of range and endpoints off the grid\<close>

lemma geometry_updateSensors_map [simp]:
  "geometry (updateSensors_map u l c r s) = geometry s"
  by (simp add: updateSensors_map_def geometry_def)

lemma mapCells_updateSensors_map [simp]:
  "mapCells (updateSensors_map u l c r s) = mapCells s"
  by (simp add: updateSensors_map_def)

lemma readings_updateSensors_map [simp]:
  "lastUltrasonicDistance (updateSensors_map u l c r s) = u"
  "lastIRLeft (updateSensors_map u l c r s) = l"
  "lastIRCenter (updateSensors_map u l c r s) = c"
  "lastIRRight (updateSensors_map u l c r s) = r"
  "mapInitialized (updateSensors_map u l c r s) = mapInitialized s"
  by (simp_all add: updateSensors_map_def)

lemma raySteps_updateMapCell:
  "raySteps (updateMapCell now x y ty conf s) dst = raySteps s dst"
  by (rule raySteps_geometry [OF geometry_updateMapCell])

lemma near_reading:
  assumes "geometry s = geometry scene" and "0 < r" and "r < 1 / 2"
  shows "updateOccupancyGrid now r 0 s = updateMapCell now 5 5 OBSTACLE (8 / 10) s"
proof -
  note gs = geometry_fields [OF assms(1), unfolded geometry_scene]
  have f: "\<lfloor>r + 5\<rfloor> = 5" "\<lfloor>r * 2\<rfloor> = 0"
    using assms(2,3) by (simp_all add: floor_eq_iff)
  have c: "rayCell s r 0 = (5, 5)"
    using rayCell_ahead [of s 0 r] assms(2) by (simp add: gs f)
  have n: "raySteps s r = 0"
    using assms(2) by (simp add: raySteps_room gs f)
  show ?thesis
    by (simp add: updateOccupancyGrid_def updateFreeSpace_def updateObstacle_def c gs
        inGrid_room raySteps_updateMapCell n)
qed

lemma near_reading_cell:
  assumes "geometry s = geometry scene" and "0 < r" and "r < 1 / 2"
    and "mapCells s 5 5 = blank"
  shows "type (mapCells (updateOccupancyGrid now r 0 s) 5 5) = OBSTACLE"
    and "confidence (mapCells (updateOccupancyGrid now r 0 s) 5 5) = 8 / 10"
proof -
  note gs = geometry_fields [OF assms(1), unfolded geometry_scene]
  show "type (mapCells (updateOccupancyGrid now r 0 s) 5 5) = OBSTACLE"
    and "confidence (mapCells (updateOccupancyGrid now r 0 s) 5 5) = 8 / 10"
    unfolding near_reading [OF assms(1-3)]
    by (simp_all add: mapCells_updateMapCell gs inGrid_room assms(4) blend_def blank_def)
qed


lemma lastIRRight_updateMapCell [simp]:
  "lastIRRight (updateMapCell now x y ty conf s) = lastIRRight s"
  by (simp add: updateMapCell_def)

lemma lastIRRight_walk:
  "lastIRRight (foldl (freeStep now ang) s js) = lastIRRight s"
  by (induction js arbitrary: s) (simp_all add: freeStep_def Let_def)

lemma geometry_walk: "geometry (foldl (freeStep now ang) s js) = geometry s"
  by (induction js arbitrary: s) simp_all

lemma geometry_updateOccupancyGrid [simp]:
  "geometry (updateOccupancyGrid now dst ang s) = geometry s"
  by (simp add: updateOccupancyGrid_def updateFreeSpace_def geometry_walk)

lemma lastIRRight_updateOccupancyGrid [simp]:
  "lastIRRight (updateOccupancyGrid now dst ang s) = lastIRRight s"
  by (simp add: updateOccupancyGrid_def updateFreeSpace_def updateObstacle_def Let_def
      lastIRRight_walk)

lemma type_markCarCell [simp]:
  "type (mapCells (markCarCell now s) y x) = type (mapCells s y x)"
  by (simp add: markCarCell_def Let_def)

lemma processSensorData_center_only:
  assumes "mapInitialized s"
    and "lastUltrasonicDistance s \<le> minRange (config s)"
    and "lastIRLeft s \<le> 0" and "lastIRRight s \<le> 0"
    and "0 < lastIRCenter s" and "lastIRCenter s < maxRange (config s)"
  shows "processSensorData now s =
    markCarCell now (updateOccupancyGrid now (lastIRCenter s) (carAngle s) s)"
proof -
  let ?t = "updateOccupancyGrid now (lastIRCenter s) (carAngle s) s"
  have a: "ultrasonicBeam now s = s"
    using assms(2) by (simp add: ultrasonicBeam_def)
  have b: "irBeam now (lastIRLeft s) a s = s" for a
    using assms(3) by (simp add: irBeam_def)
  have c: "irBeam now (lastIRCenter s) (carAngle s) s = ?t"
    using assms(5,6) by (simp add: irBeam_def)
  have d: "irBeam now (lastIRRight s) a ?t = ?t" for a
    using assms(4) by (simp add: irBeam_def)
  show ?thesis
    using assms(1) by (simp add: processSensorData_def Let_def a b c d)
qed

lemma pose_updateMapCell [simp]:
  "carPosition (updateMapCell now x y ty conf s) = carPosition s"
  "carAngle (updateMapCell now x y ty conf s) = carAngle s"
  by (simp_all add: updateMapCell_def)

lemma freeStep_elsewhere:
  assumes "sampleCell s ang i \<noteq> (x, y)"
  shows "mapCells (freeStep now ang s i) y x = mapCells s y x"
  using assms
  by (cases "sampleCell s ang i") (auto simp add: freeStep_def Let_def mapCells_updateMapCell)

lemma walk_elsewhere:
  assumes "\<forall>j \<in> set js. sampleCell s ang j \<noteq> (x, y)"
  shows "mapCells (foldl (freeStep now ang) s js) y x = mapCells s y x"
  using assms
proof (induction js arbitrary: s)
  case Nil
  show ?case by simp
next
  case (Cons j js)
  have "\<forall>k \<in> set js. sampleCell (freeStep now ang s j) ang k \<noteq> (x, y)"
    using Cons.prems by (simp add: sampleCell_geometry [OF geometry_freeStep])
  from Cons.IH [OF this] Cons.prems show ?case
    by (simp add: freeStep_elsewhere)
qed

text \<open>
  The scenario of the spec: in the room, a reading of 3 m straight ahead from (0, 0)
  makes cell (8, 5) an obstacle.
\<close>

lemma scenario_endpoint:
  "type (mapCells (updateOccupancyGrid 7 3 0 scene) 5 8) = OBSTACLE"
proof -
  let ?t = "updateMapCell 7 8 5 OBSTACLE (8 / 10) scene"
  have e: "rayCell scene 3 0 = (8, 5)"
    using rayCell_ahead [of scene 0 3] by (simp add: geometry_scene)
  have o: "updateObstacle 7 3 0 scene = ?t"
    by (simp add: updateObstacle_def e geometry_scene inGrid_room)
  note gs = geometry_scene
  have "sampleCell ?t 0 j \<noteq> (8, 5)" if "j \<in> set [1 .. 5]" for j
  proof -
    from that have j: "1 \<le> j" "j \<le> 5" by simp_all
    have "sampleCell ?t 0 j = (\<lfloor>real_of_int j / 2 + 0 + 5\<rfloor>, 5)"
      using j by (intro sampleCell_ahead) (simp_all add: gs)
    moreover have "\<lfloor>real_of_int j / 2 + 0 + 5\<rfloor> \<noteq> 8"
      using j by (simp add: floor_eq_iff)
    ultimately show ?thesis by simp
  qed
  then have "mapCells (foldl (freeStep 7 0) ?t [1 .. 5]) 5 8 = mapCells ?t 5 8"
    by (intro walk_elsewhere) blast
  moreover have "raySteps ?t 3 = 6"
    by (simp add: raySteps_room gs)
  moreover have "type (mapCells ?t 5 8) = OBSTACLE"
    by (simp add: mapCells_updateMapCell geometry_scene inGrid_room blend_def blank_def)
  ultimately show ?thesis
    by (simp add: updateOccupancyGrid_def updateFreeSpace_def e o geometry_scene inGrid_room)
qed

text \<open>
  Claim C3, as amended. An ultrasonic reading that is not strictly between \<open>minRange\<close> and
  \<open>maxRange\<close> is discarded, and so is an IR reading that is not strictly between 0 and
  \<open>maxRange\<close>: the beam leaves the mapper, and with it every cell, as it was. When all
  four readings are discarded, \<open>processSensorData\<close> does no more than mark the cell of
  the car as visited.
\<close>

theorem out_of_range_discarded:
  "(lastUltrasonicDistance s \<le> minRange (config s)
      \<or> lastUltrasonicDistance s \<ge> maxRange (config s) \<longrightarrow> ultrasonicBeam now s = s)
   \<and> (reading \<le> 0 \<or> reading \<ge> maxRange (config s) \<longrightarrow> irBeam now reading ang s = s)
   \<and> (mapInitialized s
        \<and> (lastUltrasonicDistance s \<le> minRange (config s)
          \<or> lastUltrasonicDistance s \<ge> maxRange (config s))
        \<and> (lastIRLeft s \<le> 0 \<or> lastIRLeft s \<ge> maxRange (config s))
        \<and> (lastIRCenter s \<le> 0 \<or> lastIRCenter s \<ge> maxRange (config s))
        \<and> (lastIRRight s \<le> 0 \<or> lastIRRight s \<ge> maxRange (config s))
        \<longrightarrow> processSensorData now s = markCarCell now s)"
proof -
  have u: "ultrasonicBeam now s = s"
    if "lastUltrasonicDistance s \<le> minRange (config s)
      \<or> lastUltrasonicDistance s \<ge> maxRange (config s)"
    using that by (auto simp add: ultrasonicBeam_def)
  have i: "irBeam now r a s = s" if "r \<le> 0 \<or> r \<ge> maxRange (config s)" for r a
    using that by (auto simp add: irBeam_def)
  have "processSensorData now s = markCarCell now s"
    if "mapInitialized s" and "ultrasonicBeam now s = s"
      and "\<And>a. irBeam now (lastIRLeft s) a s = s"
      and "\<And>a. irBeam now (lastIRCenter s) a s = s"
      and "\<And>a. irBeam now (lastIRRight s) a s = s"
    using that by (simp add: processSensorData_def Let_def)
  with u i show ?thesis by blast
qed

text \<open>An ultrasonic reading of 5 m with \<open>maxRange\<close> = 4 m, the IR readings at 0.\<close>

theorem out_of_range_discarded_witness:
  "lastUltrasonicDistance sensedFar \<ge> maxRange (config sensedFar)
   \<and> lastIRLeft sensedFar \<le> 0 \<and> lastIRCenter sensedFar \<le> 0 \<and> lastIRRight sensedFar \<le> 0
   \<and> mapInitialized sensedFar
   \<and> ultrasonicBeam 7 sensedFar = sensedFar
   \<and> irBeam 7 (lastIRCenter sensedFar) (carAngle sensedFar) sensedFar = sensedFar
   \<and> processSensorData 7 sensedFar = markCarCell 7 sensedFar"
proof -
  have a: "lastUltrasonicDistance sensedFar \<ge> maxRange (config sensedFar)"
    by code_simp
  have b: "lastIRLeft sensedFar \<le> 0 \<and> lastIRCenter sensedFar \<le> 0 \<and> lastIRRight sensedFar \<le> 0"
    by code_simp
  have c: "mapInitialized sensedFar"
    by code_simp
  show ?thesis
    using a b c
      out_of_range_discarded [of sensedFar 7 "lastIRCenter sensedFar" "carAngle sensedFar"]
    by simp
qed

text \<open>
  The claim as stated fails for the IR beams, which are guarded by 0 and not by
  \<open>minRange\<close>: a center IR reading of 0.03 m, below \<open>minRange\<close> = 0.05 m, makes the
  cell of its endpoint, here the cell of the car, an obstacle.
\<close>

theorem out_of_range_discarded_counterexample:
  "mapInitialized sensedNear
   \<and> lastUltrasonicDistance sensedNear = 0 \<and> lastIRLeft sensedNear = 0
   \<and> lastIRRight sensedNear = 0 \<and> lastIRCenter sensedNear = 3 / 100
   \<and> minRange (config sensedNear) = 5 / 100
   \<and> type (mapCells sensedNear 5 5) = UNKNOWN
   \<and> type (mapCells (irBeam 7 (lastIRCenter sensedNear) (carAngle sensedNear) sensedNear) 5 5)
        = OBSTACLE
   \<and> confidence (mapCells (irBeam 7 (lastIRCenter sensedNear) (carAngle sensedNear) sensedNear)
        5 5) = 8 / 10
   \<and> type (mapCells (processSensorData 7 sensedNear) 5 5) = OBSTACLE"
proof -
  have g: "geometry sensedNear = geometry scene"
    by (simp add: sensedNear_def)
  note gs = geometry_fields [OF g, unfolded geometry_scene]
  have r: "mapInitialized sensedNear" "lastUltrasonicDistance sensedNear = 0"
    "lastIRLeft sensedNear = 0" "lastIRRight sensedNear = 0"
    "lastIRCenter sensedNear = 3 / 100"
    by (simp_all add: sensedNear_def scene_def initialize_def)
  have m: "minRange (config sensedNear) = 5 / 100" "maxRange (config sensedNear) = 4"
    by (simp_all add: gs room_def)
  have u: "mapCells sensedNear 5 5 = blank"
    by (simp add: sensedNear_def)
  have i: "irBeam 7 (lastIRCenter sensedNear) (carAngle sensedNear) sensedNear
      = updateOccupancyGrid 7 (3 / 100) 0 sensedNear"
    by (simp add: irBeam_def r gs room_def)
  have p: "processSensorData 7 sensedNear
      = markCarCell 7 (updateOccupancyGrid 7 (3 / 100) 0 sensedNear)"
    using processSensorData_center_only [of sensedNear 7] by (simp add: r gs room_def)
  have c: "type (mapCells (updateOccupancyGrid 7 (3 / 100) 0 sensedNear) 5 5) = OBSTACLE"
    "confidence (mapCells (updateOccupancyGrid 7 (3 / 100) 0 sensedNear) 5 5) = 8 / 10"
    by (rule near_reading_cell [OF g _ _ u]; simp)+
  show ?thesis
    unfolding i p using r m c by (simp add: u blank_def)
qed

text \<open>
  Claim C10. A reading whose projected endpoint cell lies outside the grid changes
  nothing: \<open>updateOccupancyGrid\<close> returns the mapper as it was, and so no cell along the
  ray is marked Free either.
\<close>

theorem endpoint_outside_grid:
  assumes "\<not> inGrid (config s) (rayCell s dst ang)"
  shows "updateOccupancyGrid now dst ang s = s"
  using assms by (simp add: updateOccupancyGrid_def)

text \<open>The car at (3, 0) in the 10 by 10 room: a reading of 3 m ends in column 11.\<close>

theorem endpoint_outside_grid_witness:
  "rayCell sceneEdge 3 0 = (11, 5)
   \<and> \<not> inGrid (config sceneEdge) (rayCell sceneEdge 3 0)
   \<and> updateOccupancyGrid 7 3 0 sceneEdge = sceneEdge"
proof -
  let ?s = "sceneEdge"
  have c: "rayCell ?s 3 0 = (11, 5)"
    using rayCell_ahead [of ?s 3 3] by (simp add: geometry_rooms)
  have o: "\<not> inGrid (config ?s) (rayCell ?s 3 0)"
    by (simp add: c geometry_rooms inGrid_room)
  show ?thesis
    using c o endpoint_outside_grid [OF o, of 7] by simp
qed

subsection \<open>Free space along the ray\<close>




subsection \<open>Repeated obstacle updates\<close>

lemma repeated_updateMapCell:
  assumes "inGrid (config s) (x, y)"
  shows "geometry ((updateMapCell now x y ty conf ^^ n) s) = geometry s
    \<and> mapCells ((updateMapCell now x y ty conf ^^ n) s) y x =
        (blend (occupancyThreshold s) (freeThreshold s) now ty conf ^^ n) (mapCells s y x)"
proof (induction n)
  case 0
  show ?case by simp
next
  case (Suc n)
  let ?t = "(updateMapCell now x y ty conf ^^ n) s"
  from Suc have g: "geometry ?t = geometry s" by simp
  note f = geometry_fields [OF g]
  show ?case
    using Suc assms by (simp add: mapCells_updateMapCell f)
qed

lemma obstacle_le_1:
  assumes "confidence cell \<le> 1"
  shows "confidence (blend occ free now OBSTACLE (9 / 10) cell) \<le> 1"
  using assms by (auto simp add: blend_def Let_def)

lemma obstacle_le_9:
  assumes "confidence cell \<le> 9 / 10"
  shows "confidence (blend occ free now OBSTACLE (9 / 10) cell) \<le> 9 / 10"
  using assms by (auto simp add: blend_def Let_def)

lemma obstacle_rises:
  assumes "type cell \<noteq> FREE \<or> confidence cell \<le> 9 / 10"
  shows "confidence cell \<le> confidence (blend occ free now OBSTACLE (9 / 10) cell)
    \<and> (type (blend occ free now OBSTACLE (9 / 10) cell) \<noteq> FREE
        \<or> confidence (blend occ free now OBSTACLE (9 / 10) cell) \<le> 9 / 10)"
  using assms by (auto simp add: blend_def Let_def)

lemma obstacle_commits:
  assumes "type cell \<noteq> FREE"
  shows "type (blend (7 / 10) free now OBSTACLE (9 / 10) cell) = OBSTACLE
    \<and> confidence (blend (7 / 10) free now OBSTACLE (9 / 10) cell) = max (confidence cell) (9 / 10)"
  using assms by (auto simp add: blend_def Let_def)

lemma obstacle_progress:
  assumes "type cell \<noteq> FREE \<or> q \<le> confidence cell"
  shows "type (blend (7 / 10) free now OBSTACLE (9 / 10) cell) \<noteq> FREE
    \<or> (q + 9 / 10) / 2 \<le> confidence (blend (7 / 10) free now OBSTACLE (9 / 10) cell)"
  using assms by (auto simp add: blend_def Let_def)

lemma obstacle_final:
  assumes "type cell \<noteq> FREE \<or> 27 / 40 \<le> confidence cell"
  shows "type (blend (7 / 10) free now OBSTACLE (9 / 10) cell) \<noteq> FREE"
  using assms by (auto simp add: blend_def Let_def)

lemma obstacle_third:
  assumes "0 \<le> confidence cell"
  shows "type ((blend (7 / 10) free now OBSTACLE (9 / 10) ^^ 3) cell) \<noteq> FREE"
proof -
  let ?B = "blend (7 / 10) free now OBSTACLE (9 / 10)"
  have "type (?B cell) \<noteq> FREE \<or> (0 + 9 / 10) / 2 \<le> confidence (?B cell)"
    using assms by (intro obstacle_progress) simp
  then have "type (?B cell) \<noteq> FREE \<or> 9 / 20 \<le> confidence (?B cell)"
    by simp
  then have "type (?B (?B cell)) \<noteq> FREE \<or> (9 / 20 + 9 / 10) / 2 \<le> confidence (?B (?B cell))"
    by (rule obstacle_progress)
  then have "type (?B (?B cell)) \<noteq> FREE \<or> 27 / 40 \<le> confidence (?B (?B cell))"
    by simp
  then have "type (?B (?B (?B cell))) \<noteq> FREE"
    by (rule obstacle_final)
  then show ?thesis
    by (simp add: eval_nat_numeral)
qed

lemma obstacle_settled:
  assumes "type cell \<noteq> FREE"
  shows "type ((blend (7 / 10) free now OBSTACLE (9 / 10) ^^ Suc n) cell) = OBSTACLE
    \<and> confidence ((blend (7 / 10) free now OBSTACLE (9 / 10) ^^ Suc n) cell)
        = max (confidence cell) (9 / 10)"
proof (induction n)
  case 0
  show ?case using obstacle_commits [OF assms] by simp
next
  case (Suc n)
  let ?c = "(blend (7 / 10) free now OBSTACLE (9 / 10) ^^ Suc n) cell"
  from Suc have "type ?c \<noteq> FREE" by simp
  from obstacle_commits [OF this, of free now] Suc show ?case by simp
qed

lemma repeated_le_1:
  assumes "confidence cell \<le> 1"
  shows "confidence ((blend occ free now OBSTACLE (9 / 10) ^^ n) cell) \<le> 1"
proof (induction n)
  case 0
  show ?case using assms by simp
next
  case (Suc n)
  from obstacle_le_1 [OF Suc, of occ free now] show ?case by simp
qed

lemma repeated_le_9:
  assumes "confidence cell \<le> 9 / 10"
  shows "confidence ((blend occ free now OBSTACLE (9 / 10) ^^ n) cell) \<le> 9 / 10"
proof (induction n)
  case 0
  show ?case using assms by simp
next
  case (Suc n)
  from obstacle_le_9 [OF Suc, of occ free now] show ?case by simp
qed

lemma repeated_rises:
  assumes "type cell \<noteq> FREE \<or> confidence cell \<le> 9 / 10"
  shows "type ((blend occ free now OBSTACLE (9 / 10) ^^ n) cell) \<noteq> FREE
      \<or> confidence ((blend occ free now OBSTACLE (9 / 10) ^^ n) cell) \<le> 9 / 10"
proof (induction n)
  case 0
  show ?case using assms by simp
next
  case (Suc n)
  from obstacle_rises [OF Suc, of occ free now] show ?case by simp
qed

lemma repeated_constant:
  assumes "0 \<le> confidence cell" and "confidence cell \<le> 9 / 10" and "4 \<le> n"
  shows "confidence ((blend (7 / 10) free now OBSTACLE (9 / 10) ^^ n) cell) = 9 / 10"
proof -
  let ?B = "blend (7 / 10) free now OBSTACLE (9 / 10)"
  define m where "m = n - 4"
  have n: "n = Suc m + 3"
    using assms(3) by (simp add: m_def)
  have "(?B ^^ n) cell = (?B ^^ Suc m) ((?B ^^ 3) cell)"
    unfolding n by (simp only: funpow_add comp_apply)
  moreover have "confidence ((?B ^^ Suc m) ((?B ^^ 3) cell)) = max (confidence ((?B ^^ 3) cell)) (9 / 10)"
    using obstacle_settled [OF obstacle_third [OF assms(1)]] by blast
  moreover have "confidence ((?B ^^ 3) cell) \<le> 9 / 10"
    by (rule repeated_le_9 [OF assms(2)])
  ultimately show ?thesis by simp
qed

lemma confidenceAfter_cell:
  assumes "inGrid (config s) (x, y)"
  shows "confidenceAfter now x y n s =
    confidence ((blend (occupancyThreshold s) (freeThreshold s) now OBSTACLE (9 / 10) ^^ n)
      (mapCells s y x))"
  using repeated_updateMapCell [OF assms, where now = now and ty = OBSTACLE and conf = "9 / 10" and n = n]
  by (simp add: confidenceAfter_def)

text \<open>
  Claim C9, as amended. For a cell inside the grid with a confidence between 0 and 1
  and the occupancy threshold 0.7 of the constructor, the confidences after
  \<open>n = 0, 1, 2, \<dots>\<close> calls of \<open>updateMapCell\<close> with Obstacle and 0.9 never exceed 1.0;
  they are non-decreasing when the cell is not Free or its confidence is at most 0.9;
  and when the confidence is at most 0.9 they are equal to 0.9 from the fourth call on:
  the sequence stops at 0.9 and does not approach 1.0.
\<close>

theorem repeated_obstacle:
  assumes "0 \<le> x" and "x < mapWidth (config s)" and "0 \<le> y" and "y < mapHeight (config s)"
    and "occupancyThreshold s = 7 / 10"
    and "0 \<le> confidence (mapCells s y x)" and "confidence (mapCells s y x) \<le> 1"
  shows "(\<forall>n. confidenceAfter now x y n s \<le> 1)
    \<and> (type (mapCells s y x) \<noteq> FREE \<or> confidence (mapCells s y x) \<le> 9 / 10 \<longrightarrow>
         (\<forall>n. confidenceAfter now x y n s \<le> confidenceAfter now x y (Suc n) s))
    \<and> (confidence (mapCells s y x) \<le> 9 / 10 \<longrightarrow>
         (\<forall>n \<ge> 4. confidenceAfter now x y n s = 9 / 10))"
proof -
  have g: "inGrid (config s) (x, y)"
    using assms(1-4) by (simp add: inGrid_def)
  note c = confidenceAfter_cell [OF g, where now = now]
  let ?B = "blend (occupancyThreshold s) (freeThreshold s) now OBSTACLE (9 / 10)"
  have a: "confidenceAfter now x y n s \<le> 1" for n
    unfolding c by (rule repeated_le_1 [OF assms(7)])
  have b: "confidenceAfter now x y n s \<le> confidenceAfter now x y (Suc n) s"
    if "type (mapCells s y x) \<noteq> FREE \<or> confidence (mapCells s y x) \<le> 9 / 10" for n
  proof -
    from obstacle_rises [OF repeated_rises [OF that, where now = now and n = n]]
    have "confidence ((?B ^^ n) (mapCells s y x)) \<le> confidence (?B ((?B ^^ n) (mapCells s y x)))"
      by blast
    then show ?thesis
      unfolding c by simp
  qed
  have d: "confidenceAfter now x y n s = 9 / 10"
    if "confidence (mapCells s y x) \<le> 9 / 10" and "4 \<le> n" for n
    unfolding c assms(5) by (rule repeated_constant [OF assms(6) that])
  from a b d show ?thesis by blast
qed

text \<open>A blank cell of the room: 0, then 0.9 for good.\<close>

theorem repeated_obstacle_witness:
  "(0::int) \<le> 8 \<and> 8 < mapWidth (config scene) \<and> (0::int) \<le> 5 \<and> 5 < mapHeight (config scene)
   \<and> occupancyThreshold scene = 7 / 10
   \<and> 0 \<le> confidence (mapCells scene 5 8) \<and> confidence (mapCells scene 5 8) \<le> 9 / 10
   \<and> confidenceAfter 7 8 5 3 scene \<le> 1
   \<and> confidenceAfter 7 8 5 0 scene \<le> confidenceAfter 7 8 5 (Suc 0) scene
   \<and> confidenceAfter 7 8 5 4 scene = 9 / 10
   \<and> confidenceAfter 7 8 5 1000 scene = 9 / 10"
proof -
  have b: "(0::int) \<le> 8" "8 < mapWidth (config scene)" "(0::int) \<le> 5"
      "5 < mapHeight (config scene)"
    by (simp_all add: geometry_scene room_def)
  have t: "occupancyThreshold scene = 7 / 10"
    by (simp add: geometry_scene)
  have c: "0 \<le> confidence (mapCells scene 5 8)" "confidence (mapCells scene 5 8) \<le> 1"
      "confidence (mapCells scene 5 8) \<le> 9 / 10"
    by (simp_all add: blank_def)
  show ?thesis
    using repeated_obstacle [OF b t c(1,2), where now = 7] b t c by simp
qed

text \<open>
  The claim as stated fails twice. The cell of the car, marked \<open>CAR_POSITION\<close> at 1.0 by
  \<open>updatePosition\<close> and then crossed by a ray, is Free at 1.0: the first Obstacle update
  lowers its confidence to 0.95. And a blank cell goes to 0.9 with the first update and
  stays there: the sequence does not approach 1.0.
\<close>

theorem repeated_obstacle_counterexample:
  "type (mapCells crossed 5 5) = FREE \<and> confidence (mapCells crossed 5 5) = 1
   \<and> confidenceAfter 7 5 5 0 crossed = 1 \<and> confidenceAfter 7 5 5 1 crossed = 19 / 20
   \<and> confidenceAfter 7 5 5 1 crossed < confidenceAfter 7 5 5 0 crossed
   \<and> type (mapCells scene 5 8) = UNKNOWN \<and> confidenceAfter 7 8 5 0 scene = 0
   \<and> confidenceAfter 7 8 5 1 scene = 9 / 10 \<and> confidenceAfter 7 8 5 2 scene = 9 / 10
   \<and> confidenceAfter 7 8 5 5 scene = 9 / 10"
  by code_simp

subsection \<open>Coordinate transforms\<close>

lemma toInt_of_int [simp]: "toInt (of_int k) = k"
  by (simp add: toInt_def)




subsection \<open>Serialization round trip\<close>

lemma typeOfCode_typeCode [simp]: "typeOfCode (typeCode t) = t"
  by (cases t) (simp_all add: typeOfCode_def)

lemma cellElement_coordinates [simp]:
  "el_x (cellElement s x y) = x" "el_y (cellElement s x y) = y"
  by (simp_all add: cellElement_def)

lemma cellOfElement_cellElement:
  "cellOfElement (cellElement s x y) =
     (mapCells s y x)\<lparr>confidence := decimals2 (confidence (mapCells s y x))\<rparr>"
  by (simp add: cellOfElement_def cellElement_def)

lemma set_generateCells:
  "set (generateCells s) =
     {cellElement s x y | x y. inGrid (config s) (x, y) \<and> listed (mapCells s y x)}"
proof (intro set_eqI iffI)
  fix e
  assume "e \<in> set (generateCells s)"
  then obtain x y where "0 \<le> y" "y \<le> mapHeight (config s) - 1" "0 \<le> x"
      "x \<le> mapWidth (config s) - 1" "listed (mapCells s y x)" "e = cellElement s x y"
    by (auto simp add: generateCells_def split: if_splits)
  then show "e \<in> {cellElement s x y | x y. inGrid (config s) (x, y) \<and> listed (mapCells s y x)}"
    by (auto simp add: inGrid_def)
next
  fix e
  assume "e \<in> {cellElement s x y | x y. inGrid (config s) (x, y) \<and> listed (mapCells s y x)}"
  then obtain x y where e: "e = cellElement s x y" and g: "inGrid (config s) (x, y)"
    and l: "listed (mapCells s y x)"
    by blast
  have "y \<in> set [0 .. mapHeight (config s) - 1]" and "x \<in> set [0 .. mapWidth (config s) - 1]"
    using g by (simp_all add: inGrid_def)
  then show "e \<in> set (generateCells s)"
    unfolding generateCells_def set_concat set_map using l e by fastforce
qed

lemma find_generateCells:
  assumes "inGrid (config s) (x, y)"
  shows "find (\<lambda>e. el_x e = x \<and> el_y e = y) (generateCells s) =
    (if listed (mapCells s y x) then Some (cellElement s x y) else None)"
proof (cases "listed (mapCells s y x)")
  case True
  then have "cellElement s x y \<in> set (generateCells s)"
    using assms by (auto simp add: set_generateCells)
  then have "\<exists>e. e \<in> set (generateCells s) \<and> el_x e = x \<and> el_y e = y"
    by (intro exI [of _ "cellElement s x y"]) simp
  then have "find (\<lambda>e. el_x e = x \<and> el_y e = y) (generateCells s) \<noteq> None"
    by (simp add: find_None_iff)
  then obtain e where e: "find (\<lambda>e. el_x e = x \<and> el_y e = y) (generateCells s) = Some e"
    by blast
  then have "e \<in> set (generateCells s)" and "el_x e = x \<and> el_y e = y"
    by (auto simp add: find_Some_iff)
  then have "e = cellElement s x y"
    by (auto simp add: set_generateCells)
  with e True show ?thesis by simp
next
  case False
  then have "\<not> (\<exists>e \<in> set (generateCells s). el_x e = x \<and> el_y e = y)"
    by (auto simp add: set_generateCells)
  then have "find (\<lambda>e. el_x e = x \<and> el_y e = y) (generateCells s) = None"
    by (simp add: find_None_iff)
  with False show ?thesis by simp
qed

lemma waypoint_round_trip:
  "waypointOfElement (waypointElement w) =
     w\<lparr>wp_x := decimals2 (wp_x w), wp_y := decimals2 (wp_y w)\<rparr>"
  by (simp add: waypointOfElement_def waypointElement_def)

lemma mapCells_reloaded:
  assumes "mapInitialized s0" and "inGrid (config s) (x, y)"
  shows "mapCells (reloaded s0 s) y x =
    (if listed (mapCells s y x)
     then (mapCells s y x)\<lparr>confidence := decimals2 (confidence (mapCells s y x))\<rparr>
     else blank)"
  using assms
  by (simp add: reloaded_def loadMap_def parseMapXML_def generateMapXML_def find_generateCells
      cellOfElement_cellElement)

lemma waypoints_reloaded:
  assumes "mapInitialized s0"
  shows "waypoints (reloaded s0 s) =
    map (\<lambda>w. w\<lparr>wp_x := decimals2 (wp_x w), wp_y := decimals2 (wp_y w)\<rparr>) (waypoints s)"
  using assms
  by (simp add: reloaded_def loadMap_def parseMapXML_def generateMapXML_def
      generateWaypointXML_def waypoint_round_trip comp_def)




end
